theory Spec2Isabelle
  imports Complex_Main "HOL-Library.Word"
begin

section \<open>Data model\<close>

text \<open>
  The two programs \<^verbatim>\<open>send_screen_to_leds.py\<close> and \<^verbatim>\<open>send_video_to_leds.py\<close> turn a
  frame (a NumPy array of shape \<open>(h, w, channels)\<close> with \<open>uint8\<close> entries) into a flat
  list of bytes in serpentine order, put a two-byte header in front of it and write the
  packet to a serial port at a fixed pace.

  A frame is a record of its shape and its entries: \<open>px f ! y ! x\<close> is the pixel
  \<open>frame_rgb[y, x]\<close>, a list of \<open>channels\<close> bytes. Python integers are \<open>int\<close>, the
  readings of \<open>time.monotonic()\<close> and the frame delay are idealised as \<open>real\<close>.
\<close>

type_synonym byte = "8 word"

record ndarray =
  shape :: "nat \<times> nat \<times> nat"
  px :: "byte list list list"

text \<open>A NumPy array has exactly the entries its shape announces.\<close>

definition wf_ndarray :: "ndarray \<Rightarrow> bool" where
  "wf_ndarray f =
     (case shape f of (h, w, channels) \<Rightarrow>
        length (px f) = h \<and>
        list_all (\<lambda>row. length row = w \<and> list_all (\<lambda>p. length p = channels) row) (px f))"

datatype py_exn = IndexError | ValueError | CvError

text \<open>
  What \<open>cv2.resize\<close> can hand back: an array of three dimensions, or one of another
  rank (a one-channel image comes back with two dimensions), whose shape does not unpack
  into \<open>h, w, channels\<close>.
\<close>

datatype resized = Array3 ndarray | ArrayOther "nat list"

text \<open>The messages of the programs, with the numbers they print.\<close>

datatype diag =
    ErrFrameMismatch nat nat nat int int
  | WarnResizedInside
  | ErrResizeFailed py_exn
  | SkipFrame int
  | SkipSourceFrame int
  | WarnPacketLength int int int
  | WarnPacketLengthSrc int int int int
  | ErrWriteTimeout int
  | ErrSerial int
  | ErrUnexpected int
  | SentFrame int
  | SentFrameProgress int real
  | EndOfVideo int
  | WarnNoFps

datatype event =
    Stderr diag
  | Stdout diag
  | CvResize int int
  | SerialWrite "byte list"
  | Sleep real

definition START_BYTE_1 :: byte where
  "START_BYTE_1 = 0xA5"

definition START_BYTE_2 :: byte where
  "START_BYTE_2 = 0x5A"

section \<open>The zigzag serializer\<close>

text \<open>\<open>frame_rgb[y, x]\<close>: an index out of range raises.\<close>

definition getitem :: "ndarray \<Rightarrow> nat \<Rightarrow> nat \<Rightarrow> py_exn + byte list" where
  "getitem f y x =
     (if y < length (px f) \<and> x < length (px f ! y) then Inr (px f ! y ! x)
      else Inl IndexError)"

text \<open>\<open>r, g, b = ...\<close>: unpacking anything but three values raises.\<close>

fun unpack3 :: "byte list \<Rightarrow> py_exn + (byte \<times> byte \<times> byte)" where
  "unpack3 [r, g, b] = Inr (r, g, b)"
| "unpack3 _ = Inl ValueError"

text \<open>\<open>range(n)\<close> and \<open>range(n - 1, -1, -1)\<close>.\<close>

definition py_range :: "int \<Rightarrow> nat list" where
  "py_range n = [0..<nat n]"

definition py_range_down :: "int \<Rightarrow> nat list" where
  "py_range_down n = rev [0..<nat n]"

text \<open>
  The inner loops: for every \<open>x\<close> of the given range, read the pixel, unpack it and
  extend \<open>pixel_data\<close> with \<open>[r, g, b]\<close>.
\<close>

fun emit_row :: "ndarray \<Rightarrow> nat \<Rightarrow> nat list \<Rightarrow> byte list \<Rightarrow> py_exn + byte list" where
  "emit_row f y [] pixel_data = Inr pixel_data"
| "emit_row f y (x # xs) pixel_data =
     (case getitem f y x of
        Inl e \<Rightarrow> Inl e
      | Inr p \<Rightarrow>
          (case unpack3 p of
             Inl e \<Rightarrow> Inl e
           | Inr (r, g, b) \<Rightarrow> emit_row f y xs (pixel_data @ [r, g, b])))"

text \<open>The outer loop over \<open>y\<close>: even rows left to right, odd rows right to left.\<close>

fun emit_rows :: "ndarray \<Rightarrow> int \<Rightarrow> nat list \<Rightarrow> byte list \<Rightarrow> py_exn + byte list" where
  "emit_rows f grid_width [] pixel_data = Inr pixel_data"
| "emit_rows f grid_width (y # ys) pixel_data =
     (case (if y mod 2 = 0 then emit_row f y (py_range grid_width) pixel_data
            else emit_row f y (py_range_down grid_width) pixel_data) of
        Inl e \<Rightarrow> Inl e
      | Inr pixel_data' \<Rightarrow> emit_rows f grid_width ys pixel_data')"

definition zigzag_loop :: "ndarray \<Rightarrow> int \<Rightarrow> int \<Rightarrow> py_exn + byte list" where
  "zigzag_loop f grid_width grid_height =
     emit_rows f grid_width (py_range grid_height) []"

fun dims_mismatch :: "nat \<times> nat \<times> nat \<Rightarrow> int \<Rightarrow> int \<Rightarrow> bool" where
  "dims_mismatch (h, w, channels) grid_width grid_height =
     (int h \<noteq> grid_height \<or> int w \<noteq> grid_width \<or> channels \<noteq> 3)"

fun mismatch_diag :: "nat \<times> nat \<times> nat \<Rightarrow> int \<Rightarrow> int \<Rightarrow> event" where
  "mismatch_diag (h, w, channels) grid_width grid_height =
     Stderr (ErrFrameMismatch w h channels grid_width grid_height)"

text \<open>
  A call returns the events it caused and either an exception that leaves the function
  or the returned value, \<open>None\<close> or the list \<open>pixel_data\<close>.
\<close>

type_synonym prepared = "event list \<times> (py_exn + byte list option)"

fun returning :: "event list \<Rightarrow> py_exn + byte list \<Rightarrow> prepared" where
  "returning evs (Inl e) = (evs, Inl e)"
| "returning evs (Inr pixel_data) = (evs, Inr (Some pixel_data))"

text \<open>\<^verbatim>\<open>send_video_to_leds.py\<close>, lines 32 to 47.\<close>

definition prepare_pixel_data_standard_zigzag_video :: "ndarray \<Rightarrow> int \<Rightarrow> int \<Rightarrow> prepared" where
  "prepare_pixel_data_standard_zigzag_video frame_rgb grid_width grid_height =
     (if dims_mismatch (shape frame_rgb) grid_width grid_height
      then ([mismatch_diag (shape frame_rgb) grid_width grid_height], Inr None)
      else returning [] (zigzag_loop frame_rgb grid_width grid_height))"

text \<open>
  \<^verbatim>\<open>send_screen_to_leds.py\<close>, lines 21 to 52. On a mismatch the frame is resized once
  more; \<open>cv2.resize\<close> is a parameter. Whatever is raised inside the \<open>try\<close> (by the resize
  or by unpacking the shape of its result) is caught and \<open>None\<close> is returned.
\<close>

definition prepare_pixel_data_standard_zigzag ::
  "(ndarray \<Rightarrow> int \<Rightarrow> int \<Rightarrow> py_exn + resized) \<Rightarrow> ndarray \<Rightarrow> int \<Rightarrow> int \<Rightarrow> prepared" where
  "prepare_pixel_data_standard_zigzag resize frame_rgb grid_width grid_height =
     (if dims_mismatch (shape frame_rgb) grid_width grid_height
      then
        (let evs = [mismatch_diag (shape frame_rgb) grid_width grid_height,
                    CvResize grid_width grid_height]
         in case resize frame_rgb grid_width grid_height of
              Inl e \<Rightarrow> (evs @ [Stderr (ErrResizeFailed e)], Inr None)
            | Inr (ArrayOther dims) \<Rightarrow>
                (evs @ [Stderr WarnResizedInside, Stderr (ErrResizeFailed ValueError)], Inr None)
            | Inr (Array3 frame_rgb') \<Rightarrow>
                if dims_mismatch (shape frame_rgb') grid_width grid_height
                then (evs @ [Stderr WarnResizedInside], Inr None)
                else returning (evs @ [Stderr WarnResizedInside])
                       (zigzag_loop frame_rgb' grid_width grid_height))
      else returning [] (zigzag_loop frame_rgb grid_width grid_height))"

section \<open>The serpentine layout\<close>

text \<open>
  The layout that the serializer is compared with: the rows from the top, every row of
  even index as it stands, every row of odd index with its pixels in reverse order, and
  every pixel as its own bytes in their own order.
\<close>

definition zigzag_row :: "byte list list list \<Rightarrow> nat \<Rightarrow> byte list list" where
  "zigzag_row rows y = (if even y then rows ! y else rev (rows ! y))"

definition zigzag_bytes :: "byte list list list \<Rightarrow> byte list" where
  "zigzag_bytes rows = concat (map (\<lambda>y. concat (zigzag_row rows y)) [0..<length rows])"

text \<open>
  Modelled from the spec: the receiver's de-zigzag is no part of the repository. The spec
  has it reverse the known traversal per row: pixel \<open>i\<close> of the \<open>y\<close>-th group of
  \<open>w\<close> pixels (three bytes each) of the payload, the group in reverse when \<open>y\<close> is odd.
\<close>

definition dezigzag :: "nat \<Rightarrow> nat \<Rightarrow> byte list \<Rightarrow> byte list list list" where
  "dezigzag w h payload =
     map (\<lambda>y. let row = map (\<lambda>i. take 3 (drop (3 * (y * w + i)) payload)) [0..<w]
               in if even y then row else rev row) [0..<h]"

definition frame2x2 :: ndarray where
  "frame2x2 = \<lparr> shape = (2, 2, 3),
                px = [[[1, 2, 3], [4, 5, 6]], [[7, 8, 9], [10, 11, 12]]] \<rparr>"

definition no_resize :: "ndarray \<Rightarrow> int \<Rightarrow> int \<Rightarrow> py_exn + resized" where
  "no_resize f grid_width grid_height = Inl CvError"

section \<open>Framing, pacing and the sending loops\<close>

text \<open>
  What the environment answers during one pass of the \<open>while True\<close> loop: the two
  readings of the monotonic clock and the outcome of \<open>ser.write\<close>.
\<close>

datatype write_outcome = Written | SerialTimeoutException | SerialException | OtherException

datatype control = Continue | Break | Propagate py_exn

record config =
  grid_width :: int
  grid_height :: int
  target_fps :: int

record iter_env =
  frame_start_time :: real
  frame_end_time :: real
  write_outcome :: write_outcome

text \<open>\<open>frame_delay = 1.0 / target_fps\<close>; \<open>get_int_input\<close> accepts positive integers only.\<close>

definition frame_delay :: "config \<Rightarrow> real" where
  "frame_delay cfg = 1 / real_of_int (target_fps cfg)"

text \<open>\<open>packet_buffer = bytearray([START_BYTE_1, START_BYTE_2])\<close>, extended by the payload.\<close>

definition packet_of :: "byte list \<Rightarrow> byte list" where
  "packet_of pixel_byte_list = [START_BYTE_1, START_BYTE_2] @ pixel_byte_list"

text \<open>The frame rate control at the end of a pass.\<close>

definition pace :: "real \<Rightarrow> real \<Rightarrow> real \<Rightarrow> event list" where
  "pace delay start_time end_time =
     (let processing_time = end_time - start_time;
          sleep_time = delay - processing_time
      in if sleep_time > 0 then [Sleep sleep_time] else [])"

fun write_failed :: "write_outcome \<Rightarrow> int \<Rightarrow> event list" where
  "write_failed Written n = []"
| "write_failed SerialTimeoutException n = [Stderr (ErrWriteTimeout n)]"
| "write_failed SerialException n = [Stderr (ErrSerial n)]"
| "write_failed OtherException n = [Stderr (ErrUnexpected n)]"

text \<open>
  \<^verbatim>\<open>send_screen_to_leds.py\<close>, lines 160 to 202: build the packet, compare its length
  with the expected one (the \<open>continue\<close> after the warning is commented out), write it,
  pace. The result is the events, the new \<open>frame_count\<close> and how the loop goes on.
\<close>

definition send_packet :: "config \<Rightarrow> int \<Rightarrow> byte list \<Rightarrow> iter_env \<Rightarrow> event list \<times> int \<times> control" where
  "send_packet cfg frame_count pixel_byte_list io =
     (let packet_buffer = packet_of pixel_byte_list;
          expected_packet_length = 2 + (grid_width cfg * grid_height cfg * 3);
          warn = (if int (length packet_buffer) \<noteq> expected_packet_length
                  then [Stderr (WarnPacketLength (frame_count + 1) expected_packet_length
                                  (int (length packet_buffer)))]
                  else [])
      in case write_outcome io of
           Written \<Rightarrow>
             (let frame_count' = frame_count + 1
              in (warn @ [SerialWrite packet_buffer]
                    @ pace (frame_delay cfg) (frame_start_time io) (frame_end_time io)
                    @ (if frame_count' mod (target_fps cfg * 10) = 0
                       then [Stdout (SentFrame frame_count')] else []),
                  frame_count', Continue))
         | failure \<Rightarrow>
             (warn @ [SerialWrite packet_buffer] @ write_failed failure (frame_count + 1),
              frame_count, Break))"

text \<open>One pass of the loop of \<^verbatim>\<open>send_screen_to_leds.py\<close>, from the RGB frame on.\<close>

definition screen_iteration ::
  "(ndarray \<Rightarrow> int \<Rightarrow> int \<Rightarrow> py_exn + resized) \<Rightarrow> config \<Rightarrow> int \<Rightarrow> ndarray \<Rightarrow> iter_env
     \<Rightarrow> event list \<times> int \<times> control" where
  "screen_iteration resize cfg frame_count rgb_frame io =
     (case prepare_pixel_data_standard_zigzag resize rgb_frame (grid_width cfg) (grid_height cfg) of
        (evs, Inl e) \<Rightarrow> (evs, frame_count, Propagate e)
      | (evs, Inr None) \<Rightarrow>
          (evs @ [Stdout (SkipFrame (frame_count + 1)), Sleep (1 / 100)], frame_count, Continue)
      | (evs, Inr (Some pixel_byte_list)) \<Rightarrow>
          (case send_packet cfg frame_count pixel_byte_list io of
             (evs', frame_count', c) \<Rightarrow> (evs @ evs', frame_count', c)))"

text \<open>
  The loop, run on the answers of the environment for its first passes: it goes on after
  \<open>continue\<close> and after a completed pass, and stops at a \<open>break\<close> or an exception.
\<close>

fun screen_loop ::
  "(ndarray \<Rightarrow> int \<Rightarrow> int \<Rightarrow> py_exn + resized) \<Rightarrow> config \<Rightarrow> int \<Rightarrow> (ndarray \<times> iter_env) list
     \<Rightarrow> event list \<times> int" where
  "screen_loop resize cfg frame_count [] = ([], frame_count)"
| "screen_loop resize cfg frame_count ((rgb_frame, io) # rest) =
     (case screen_iteration resize cfg frame_count rgb_frame io of
        (evs, frame_count', Continue) \<Rightarrow>
          (case screen_loop resize cfg frame_count' rest of
             (evs', n) \<Rightarrow> (evs @ evs', n))
      | (evs, frame_count', _) \<Rightarrow> (evs, frame_count'))"

text \<open>
  \<^verbatim>\<open>send_video_to_leds.py\<close>. The state of its loop; \<open>cap\<close> holds the frames the decoder
  has still to deliver, each as the resampler and the colour conversion hand it on.
\<close>

record video_state =
  frame_count :: int
  processed_frame_index :: int
  last_frame_send_time :: real
  cap :: "ndarray list"

record video_env = iter_env +
  skip_time :: real

text \<open>Python's \<open>round\<close> of a float: to the nearest integer, a tie to the even one.\<close>

definition py_round :: "real \<Rightarrow> int" where
  "py_round x =
     (let f = \<lfloor>x\<rfloor>; d = x - of_int f
      in if d < 1 / 2 then f else if d > 1 / 2 then f + 1 else if even f then f else f + 1)"

text \<open>Lines 220 to 225: the number of source frames read for one frame sent.\<close>

definition frames_to_skip :: "real \<Rightarrow> int \<Rightarrow> event list \<times> int" where
  "frames_to_skip original_fps fps =
     (if original_fps \<le> 0 then ([Stderr WarnNoFps], 1)
      else ([], max 1 (py_round (original_fps / real_of_int fps))))"

text \<open>
  Lines 244 to 250: read up to \<open>n\<close> frames, stop at the first read that fails; the last
  frame read is kept, \<open>None\<close> stands for \<open>ret\<close> being false.
\<close>

fun read_skipping :: "nat \<Rightarrow> ndarray list \<Rightarrow> int \<Rightarrow> ndarray option \<Rightarrow> ndarray option \<times> ndarray list \<times> int" where
  "read_skipping 0 frames idx frame = (frame, frames, idx)"
| "read_skipping (Suc n) [] idx frame = (None, [], idx + 1)"
| "read_skipping (Suc n) (fr # frames) idx frame = read_skipping n frames (idx + 1) (Some fr)"

text \<open>Lines 267 to 303.\<close>

definition send_packet_video ::
  "config \<Rightarrow> int \<Rightarrow> video_state \<Rightarrow> byte list \<Rightarrow> video_env \<Rightarrow> event list \<times> video_state \<times> control" where
  "send_packet_video cfg original_frames st pixel_byte_list io =
     (let packet_buffer = packet_of pixel_byte_list;
          expected_packet_length = 2 + (grid_width cfg * grid_height cfg * 3);
          warn = (if int (length packet_buffer) \<noteq> expected_packet_length
                  then [Stderr (WarnPacketLengthSrc (frame_count st + 1)
                                  (processed_frame_index st - 1) expected_packet_length
                                  (int (length packet_buffer)))]
                  else [])
      in case write_outcome io of
           Written \<Rightarrow>
             (let frame_count' = frame_count st + 1
              in (warn @ [SerialWrite packet_buffer]
                    @ pace (frame_delay cfg) (frame_start_time io) (frame_end_time io)
                    @ (if frame_count' mod (target_fps cfg * 10) = 0 \<and> original_frames > 0
                       then [Stdout (SentFrameProgress frame_count'
                              (real_of_int (processed_frame_index st) / real_of_int original_frames * 100))]
                       else if frame_count' mod (target_fps cfg * 10) = 0
                       then [Stdout (SentFrame frame_count')] else []),
                  st\<lparr>frame_count := frame_count'\<rparr>, Continue))
         | failure \<Rightarrow>
             (warn @ [SerialWrite packet_buffer] @ write_failed failure (frame_count st + 1),
              st, Break))"

text \<open>One pass of the loop of \<^verbatim>\<open>send_video_to_leds.py\<close>, lines 240 to 303.\<close>

definition video_iteration ::
  "config \<Rightarrow> int \<Rightarrow> int \<Rightarrow> video_state \<Rightarrow> video_env \<Rightarrow> event list \<times> video_state \<times> control" where
  "video_iteration cfg skip original_frames st io =
     (case read_skipping (nat skip) (cap st) (processed_frame_index st) None of
        (None, frames, idx) \<Rightarrow>
          ([Stdout (EndOfVideo (idx - 1))],
           st\<lparr>processed_frame_index := idx, cap := frames\<rparr>, Break)
      | (Some rgb_frame, frames, idx) \<Rightarrow>
          (let st1 = st\<lparr>processed_frame_index := idx, cap := frames\<rparr>
           in case prepare_pixel_data_standard_zigzag_video rgb_frame
                     (grid_width cfg) (grid_height cfg) of
                (evs, Inl e) \<Rightarrow> (evs, st1, Propagate e)
              | (evs, Inr None) \<Rightarrow>
                  (evs @ [Stdout (SkipSourceFrame (idx - 1))],
                   st1\<lparr>last_frame_send_time := skip_time io\<rparr>, Continue)
              | (evs, Inr (Some pixel_byte_list)) \<Rightarrow>
                  (case send_packet_video cfg original_frames st1 pixel_byte_list io of
                     (evs', st2, c) \<Rightarrow> (evs @ evs', st2, c))))"

fun video_loop ::
  "config \<Rightarrow> int \<Rightarrow> int \<Rightarrow> video_state \<Rightarrow> video_env list \<Rightarrow> event list \<times> video_state" where
  "video_loop cfg skip original_frames st [] = ([], st)"
| "video_loop cfg skip original_frames st (io # rest) =
     (case video_iteration cfg skip original_frames st io of
        (evs, st', Continue) \<Rightarrow>
          (case video_loop cfg skip original_frames st' rest of
             (evs', st'') \<Rightarrow> (evs @ evs', st''))
      | (evs, st', _) \<Rightarrow> (evs, st'))"

text \<open>What a list of events sends, how long it blocks, and which warnings it holds.\<close>

fun serial_writes :: "event list \<Rightarrow> byte list list" where
  "serial_writes [] = []"
| "serial_writes (SerialWrite p # evs) = p # serial_writes evs"
| "serial_writes (_ # evs) = serial_writes evs"

fun slept :: "event list \<Rightarrow> real" where
  "slept [] = 0"
| "slept (Sleep d # evs) = d + slept evs"
| "slept (_ # evs) = slept evs"

fun resize_calls :: "event list \<Rightarrow> event list" where
  "resize_calls [] = []"
| "resize_calls (CvResize w h # evs) = CvResize w h # resize_calls evs"
| "resize_calls (_ # evs) = resize_calls evs"

fun length_warnings :: "event list \<Rightarrow> event list" where
  "length_warnings [] = []"
| "length_warnings (Stderr (WarnPacketLength n e g) # evs) =
     Stderr (WarnPacketLength n e g) # length_warnings evs"
| "length_warnings (Stderr (WarnPacketLengthSrc n i e g) # evs) =
     Stderr (WarnPacketLengthSrc n i e g) # length_warnings evs"
| "length_warnings (_ # evs) = length_warnings evs"

section \<open>Concrete inputs\<close>

definition frame1x1 :: ndarray where
  "frame1x1 = \<lparr> shape = (1, 1, 3), px = [[[9, 8, 7]]] \<rparr>"

definition resize_to_2x2 :: "ndarray \<Rightarrow> int \<Rightarrow> int \<Rightarrow> py_exn + resized" where
  "resize_to_2x2 f gw gh = Inr (Array3 frame2x2)"

definition resize_if_2x2 :: "ndarray \<Rightarrow> int \<Rightarrow> int \<Rightarrow> py_exn + resized" where
  "resize_if_2x2 f gw gh =
     (if gw = 2 \<and> gh = 2 then Inr (Array3 frame2x2) else Inl CvError)"

definition cfg2x2 :: config where
  "cfg2x2 = \<lparr> grid_width = 2, grid_height = 2, target_fps = 5 \<rparr>"

text \<open>A pass that takes 50 ms and one that takes 250 ms, both with a successful write.\<close>

definition env_fast :: iter_env where
  "env_fast = \<lparr> frame_start_time = 10, frame_end_time = 10 + 1 / 20, write_outcome = Written \<rparr>"

definition env_slow :: iter_env where
  "env_slow = \<lparr> frame_start_time = 7, frame_end_time = 7 + 1 / 4, write_outcome = Written \<rparr>"

definition venv_fast :: video_env where
  "venv_fast = \<lparr> frame_start_time = 10, frame_end_time = 10 + 1 / 20, write_outcome = Written,
                  skip_time = 10 \<rparr>"

definition venv_slow :: video_env where
  "venv_slow = \<lparr> frame_start_time = 7, frame_end_time = 7 + 1 / 4, write_outcome = Written,
                  skip_time = 7 \<rparr>"

definition vstate0 :: "ndarray list \<Rightarrow> video_state" where
  "vstate0 frames = \<lparr> frame_count = 0, processed_frame_index = 0, last_frame_send_time = 0,
                        cap = frames \<rparr>"

section \<open>Properties of the serializer\<close>

lemma emit_row_ok:
  assumes "y < length (px f)"
    and "\<forall>x \<in> set xs. x < length (px f ! y) \<and> length (px f ! y ! x) = 3"
  shows "emit_row f y xs acc = Inr (acc @ concat (map (\<lambda>x. px f ! y ! x) xs))"
  using assms
proof (induction xs arbitrary: acc)
  case Nil
  then show ?case by simp
next
  case (Cons x xs)
  from Cons.prems have len: "length (px f ! y ! x) = 3" and inb: "x < length (px f ! y)"
    by simp_all
  from len obtain r g b where p: "px f ! y ! x = [r, g, b]"
    by (auto simp: length_Suc_conv numeral_3_eq_3)
  have "emit_row f y (x # xs) acc = emit_row f y xs (acc @ [r, g, b])"
    using Cons.prems(1) inb p by (simp add: getitem_def)
  also have "\<dots> = Inr ((acc @ [r, g, b]) @ concat (map (\<lambda>x. px f ! y ! x) xs))"
    using Cons.prems by (intro Cons.IH) simp_all
  finally show ?case by (simp add: p)
qed

lemma emit_row_range:
  assumes "y < length (px f)" and "length (px f ! y) = nat gw"
    and "\<forall>p \<in> set (px f ! y). length p = 3"
  shows "emit_row f y (py_range gw) acc = Inr (acc @ concat (px f ! y))"
proof -
  have "\<forall>x \<in> set (py_range gw). x < length (px f ! y) \<and> length (px f ! y ! x) = 3"
    using assms by (simp add: py_range_def)
  then have "emit_row f y (py_range gw) acc
      = Inr (acc @ concat (map (\<lambda>x. px f ! y ! x) (py_range gw)))"
    using assms(1) by (rule emit_row_ok[rotated])
  moreover have "map (\<lambda>x. px f ! y ! x) (py_range gw) = px f ! y"
    unfolding py_range_def assms(2)[symmetric] by (rule map_nth)
  ultimately show ?thesis by simp
qed

lemma emit_row_range_down:
  assumes "y < length (px f)" and "length (px f ! y) = nat gw"
    and "\<forall>p \<in> set (px f ! y). length p = 3"
  shows "emit_row f y (py_range_down gw) acc = Inr (acc @ concat (rev (px f ! y)))"
proof -
  have "\<forall>x \<in> set (py_range_down gw). x < length (px f ! y) \<and> length (px f ! y ! x) = 3"
    using assms by (simp add: py_range_down_def)
  then have "emit_row f y (py_range_down gw) acc
      = Inr (acc @ concat (map (\<lambda>x. px f ! y ! x) (py_range_down gw)))"
    using assms(1) by (rule emit_row_ok[rotated])
  moreover have "map (\<lambda>x. px f ! y ! x) (py_range_down gw) = rev (px f ! y)"
    unfolding py_range_down_def assms(2)[symmetric] rev_map[symmetric] by (simp add: map_nth)
  ultimately show ?thesis by simp
qed

lemma emit_rows_ok:
  assumes "\<forall>y \<in> set ys. y < length (px f) \<and> length (px f ! y) = nat gw
             \<and> (\<forall>p \<in> set (px f ! y). length p = 3)"
  shows "emit_rows f gw ys acc = Inr (acc @ concat (map (\<lambda>y. concat (zigzag_row (px f) y)) ys))"
  using assms
proof (induction ys arbitrary: acc)
  case Nil
  then show ?case by simp
next
  case (Cons y ys)
  then have row: "y < length (px f)" "length (px f ! y) = nat gw"
      "\<forall>p \<in> set (px f ! y). length p = 3"
    by simp_all
  have step: "(if y mod 2 = 0 then emit_row f y (py_range gw) acc
               else emit_row f y (py_range_down gw) acc)
              = Inr (acc @ concat (zigzag_row (px f) y))"
    using emit_row_range[OF row] emit_row_range_down[OF row]
    by (simp add: zigzag_row_def even_iff_mod_2_eq_zero)
  have "emit_rows f gw (y # ys) acc = emit_rows f gw ys (acc @ concat (zigzag_row (px f) y))"
    by (simp only: emit_rows.simps step sum.case)
  also have "\<dots> = Inr ((acc @ concat (zigzag_row (px f) y))
                       @ concat (map (\<lambda>y. concat (zigzag_row (px f) y)) ys))"
    using Cons.prems by (intro Cons.IH) simp
  finally show ?case by simp
qed

lemma zigzag_loop_ok:
  assumes "wf_ndarray f" and "shape f = (h, w, 3)"
  shows "zigzag_loop f (int w) (int h) = Inr (zigzag_bytes (px f))"
proof -
  from assms have len: "length (px f) = h"
    and rows: "\<forall>row \<in> set (px f). length row = w \<and> (\<forall>p \<in> set row. length p = 3)"
    by (simp_all add: wf_ndarray_def list_all_iff)
  have "\<forall>y \<in> set (py_range (int h)). y < length (px f) \<and> length (px f ! y) = nat (int w)
             \<and> (\<forall>p \<in> set (px f ! y). length p = 3)"
    using len rows by (auto simp: py_range_def)
  then have "emit_rows f (int w) (py_range (int h)) []
      = Inr ([] @ concat (map (\<lambda>y. concat (zigzag_row (px f) y)) (py_range (int h))))"
    by (rule emit_rows_ok)
  then show ?thesis
    by (simp add: zigzag_loop_def zigzag_bytes_def py_range_def len)
qed

text \<open>
  C1. For every frame of exactly \<open>grid_height\<close> rows and \<open>grid_width\<close> columns of
  three-channel pixels, both serializers return, without any diagnostic, the rows from the
  top, every row of even index from left to right and every row of odd index from right to
  left, each pixel as its three bytes in the order (R, G, B) whatever the direction.
\<close>

theorem zigzag_layout:
  assumes "wf_ndarray f" and "shape f = (h, w, 3)"
  shows "prepare_pixel_data_standard_zigzag resize f (int w) (int h)
           = ([], Inr (Some (zigzag_bytes (px f))))
       \<and> prepare_pixel_data_standard_zigzag_video f (int w) (int h)
           = ([], Inr (Some (zigzag_bytes (px f))))"
  using zigzag_loop_ok[OF assms] assms(2)
  by (simp add: prepare_pixel_data_standard_zigzag_def prepare_pixel_data_standard_zigzag_video_def)

lemma wf_frame2x2: "wf_ndarray frame2x2"
  by (simp add: wf_ndarray_def frame2x2_def)

theorem zigzag_layout_witness:
  "wf_ndarray frame2x2 \<and> shape frame2x2 = (2, 2, 3)
   \<and> prepare_pixel_data_standard_zigzag no_resize frame2x2 2 2
       = ([], Inr (Some [1, 2, 3, 4, 5, 6, 10, 11, 12, 7, 8, 9]))
   \<and> prepare_pixel_data_standard_zigzag_video frame2x2 2 2
       = ([], Inr (Some [1, 2, 3, 4, 5, 6, 10, 11, 12, 7, 8, 9]))"
proof -
  have s: "shape frame2x2 = (2, 2, 3)" by (simp add: frame2x2_def)
  have z: "zigzag_bytes (px frame2x2) = [1, 2, 3, 4, 5, 6, 10, 11, 12, 7, 8, 9]"
    by (simp add: zigzag_bytes_def zigzag_row_def frame2x2_def upt_rec)
  show ?thesis
    using zigzag_layout[OF wf_frame2x2 s, of no_resize] wf_frame2x2 s z by simp
qed

text \<open>
  C3. The grid \<open>[[(1,2,3),(4,5,6)],[(7,8,9),(10,11,12)]]\<close> of width 2 and height 2 is
  serialized to the bytes \<open>1,2,3,4,5,6,10,11,12,7,8,9\<close>: row 1 is reversed.
\<close>

theorem zigzag_example_2x2:
  "prepare_pixel_data_standard_zigzag resize frame2x2 2 2
      = ([], Inr (Some [1, 2, 3, 4, 5, 6, 10, 11, 12, 7, 8, 9]))
   \<and> prepare_pixel_data_standard_zigzag_video frame2x2 2 2
      = ([], Inr (Some [1, 2, 3, 4, 5, 6, 10, 11, 12, 7, 8, 9]))"
  by (simp add: prepare_pixel_data_standard_zigzag_video_def prepare_pixel_data_standard_zigzag_def
      frame2x2_def zigzag_loop_def py_range_def py_range_down_def getitem_def upt_rec)

lemma emit_row_length:
  "emit_row f y xs acc = Inr r \<Longrightarrow> length r = length acc + 3 * length xs"
proof (induction xs arbitrary: acc)
  case Nil
  then show ?case by simp
next
  case (Cons x xs)
  from Cons.prems obtain p where p: "getitem f y x = Inr p"
    by (cases "getitem f y x") simp_all
  from Cons.prems p obtain a b c where u: "unpack3 p = Inr (a, b, c)"
    by (cases "unpack3 p") auto
  from Cons.prems p u have "emit_row f y xs (acc @ [a, b, c]) = Inr r" by simp
  from Cons.IH[OF this] show ?case by simp
qed

lemma emit_rows_length:
  "emit_rows f gw ys acc = Inr r \<Longrightarrow> length r = length acc + 3 * nat gw * length ys"
proof (induction ys arbitrary: acc)
  case Nil
  then show ?case by simp
next
  case (Cons y ys)
  let ?row = "if y mod 2 = 0 then emit_row f y (py_range gw) acc
              else emit_row f y (py_range_down gw) acc"
  from Cons.prems obtain acc' where row: "?row = Inr acc'"
    by (cases ?row) simp_all
  then have "length acc' = length acc + 3 * nat gw"
    by (auto simp: py_range_def py_range_down_def dest: emit_row_length split: if_splits)
  moreover from Cons.prems row have "emit_rows f gw ys acc' = Inr r"
    by (simp del: emit_row.simps)
  from Cons.IH[OF this] have "length r = length acc' + 3 * nat gw * length ys" .
  ultimately show ?case by (simp add: algebra_simps)
qed

lemma zigzag_loop_length:
  "zigzag_loop f gw gh = Inr r \<Longrightarrow> length r = 3 * nat gw * nat gh"
  by (auto simp: zigzag_loop_def py_range_def dest: emit_rows_length)

lemma returning_Some:
  "returning evs r = (evs', Inr (Some bs)) \<Longrightarrow> r = Inr bs \<and> evs' = evs"
  by (cases r) simp_all

lemma matched_length:
  assumes "\<not> dims_mismatch s gw gh" and "zigzag_loop f gw gh = Inr r"
  shows "int (length r) = gw * gh * 3"
proof -
  obtain h w c where s: "s = (h, w, c)" by (cases s) auto
  with assms(1) have "gh = int h" "gw = int w" by simp_all
  with zigzag_loop_length[OF assms(2)] show ?thesis by simp
qed

lemma video_prepared_length:
  assumes "prepare_pixel_data_standard_zigzag_video f gw gh = (evs, Inr (Some bs))"
  shows "int (length bs) = gw * gh * 3"
proof -
  from assms have m: "\<not> dims_mismatch (shape f) gw gh"
    by (auto simp: prepare_pixel_data_standard_zigzag_video_def split: if_splits)
  with assms have "zigzag_loop f gw gh = Inr bs"
    by (auto simp: prepare_pixel_data_standard_zigzag_video_def dest: returning_Some)
  with m show ?thesis by (rule matched_length)
qed

lemma screen_prepared_length:
  assumes "prepare_pixel_data_standard_zigzag resize f gw gh = (evs, Inr (Some bs))"
  shows "int (length bs) = gw * gh * 3"
proof (cases "dims_mismatch (shape f) gw gh")
  case False
  with assms have "zigzag_loop f gw gh = Inr bs"
    by (auto simp: prepare_pixel_data_standard_zigzag_def dest: returning_Some)
  with False show ?thesis by (rule matched_length)
next
  case True
  with assms obtain f' where "\<not> dims_mismatch (shape f') gw gh" "zigzag_loop f' gw gh = Inr bs"
    by (auto simp: prepare_pixel_data_standard_zigzag_def Let_def
        split: sum.splits resized.splits if_splits dest: returning_Some)
  then show ?thesis by (rule matched_length)
qed

section \<open>Round trip\<close>

lemma length_concat_uniform:
  "\<forall>xs \<in> set xss. length xs = n \<Longrightarrow> length (concat xss) = length xss * n"
  by (induction xss) simp_all

lemma chunk_of_concat:
  "\<forall>xs \<in> set xss. length xs = n \<Longrightarrow> i < length xss
   \<Longrightarrow> take n (drop (i * n) (concat xss)) = xss ! i"
proof (induction xss arbitrary: i)
  case Nil
  then show ?case by simp
next
  case (Cons xs xss)
  show ?case
  proof (cases i)
    case 0
    with Cons.prems show ?thesis by simp
  next
    case (Suc j)
    with Cons.prems have "take n (drop (j * n) (concat xss)) = xss ! j"
      by (intro Cons.IH) simp_all
    with Suc Cons.prems(1) show ?thesis by simp
  qed
qed

lemma nth_of_concat:
  assumes "\<forall>xs \<in> set xss. length xs = n" and "i < length xss" and "j < n"
  shows "concat xss ! (i * n + j) = xss ! i ! j"
proof -
  have "i * n + j < length (concat xss)"
  proof -
    have "i * n + j < i * n + n" using assms(3) by simp
    also have "\<dots> = Suc i * n" by simp
    also have "\<dots> \<le> length xss * n" using assms(2) by (intro mult_le_mono1) simp
    finally show ?thesis by (simp add: length_concat_uniform[OF assms(1)])
  qed
  then have "concat xss ! (i * n + j) = take n (drop (i * n) (concat xss)) ! j"
    using assms(3) by simp
  then show ?thesis by (simp add: chunk_of_concat[OF assms(1,2)])
qed

lemma concat_map_concat: "concat (map concat xss) = concat (concat xss)"
  by (induction xss) simp_all

lemma dezigzag_zigzag_bytes:
  assumes rows: "\<forall>row \<in> set rows. length row = w \<and> (\<forall>p \<in> set row. length p = 3)"
  shows "dezigzag w (length rows) (zigzag_bytes rows) = rows"
proof -
  let ?h = "length rows"
  let ?zrows = "map (zigzag_row rows) [0..<?h]"
  let ?pixels = "concat ?zrows"
  have bytes: "zigzag_bytes rows = concat ?pixels"
    by (simp add: zigzag_bytes_def concat_map_concat[symmetric] comp_def)
  have zlen: "\<forall>zr \<in> set ?zrows. length zr = w"
    using rows by (auto simp: zigzag_row_def)
  have plen: "\<forall>p \<in> set ?pixels. length p = 3"
    using rows by (auto simp: zigzag_row_def)
  have npix: "length ?pixels = ?h * w"
    using length_concat_uniform[OF zlen] by simp
  have pixel: "take 3 (drop (3 * (y * w + i)) (zigzag_bytes rows)) = zigzag_row rows y ! i"
    if "y < ?h" and "i < w" for y i
  proof -
    have "y * w + i < ?h * w"
    proof -
      have "y * w + i < Suc y * w" using that(2) by simp
      also have "\<dots> \<le> ?h * w" using that(1) by (intro mult_le_mono1) simp
      finally show ?thesis .
    qed
    then have "take 3 (drop ((y * w + i) * 3) (concat ?pixels)) = ?pixels ! (y * w + i)"
      using plen npix by (intro chunk_of_concat) simp_all
    moreover have "?pixels ! (y * w + i) = ?zrows ! y ! i"
      using zlen that by (intro nth_of_concat) simp_all
    ultimately show ?thesis using that(1) by (simp add: bytes mult.commute)
  qed
  have row: "(let row = map (\<lambda>i. take 3 (drop (3 * (y * w + i)) (zigzag_bytes rows))) [0..<w]
              in if even y then row else rev row) = rows ! y"
    if "y < ?h" for y
  proof -
    have zl: "length (zigzag_row rows y) = w"
      using rows that by (simp add: zigzag_row_def)
    have "map (\<lambda>i. take 3 (drop (3 * (y * w + i)) (zigzag_bytes rows))) [0..<w]
          = map (\<lambda>i. zigzag_row rows y ! i) [0..<w]"
      using pixel[OF that] by simp
    also have "\<dots> = zigzag_row rows y"
      unfolding zl[symmetric] by (rule map_nth)
    finally show ?thesis by (simp add: zigzag_row_def)
  qed
  have "dezigzag w ?h (zigzag_bytes rows) = map (\<lambda>y. rows ! y) [0..<?h]"
    unfolding dezigzag_def using row by (intro map_cong refl) simp
  then show ?thesis by (simp add: map_nth)
qed

text \<open>
  C2. Round trip: on every frame of the target dimensions both serializers return a
  payload, and de-zigzagging that payload (reversing the traversal of every odd row) gives
  back the grid of the frame exactly, for every width and height.
\<close>

theorem zigzag_round_trip:
  assumes "wf_ndarray f" and "shape f = (h, w, 3)"
  shows "\<exists>payload.
           prepare_pixel_data_standard_zigzag resize f (int w) (int h) = ([], Inr (Some payload))
         \<and> prepare_pixel_data_standard_zigzag_video f (int w) (int h) = ([], Inr (Some payload))
         \<and> dezigzag w h payload = px f"
proof -
  from assms have len: "length (px f) = h"
    and rows: "\<forall>row \<in> set (px f). length row = w \<and> (\<forall>p \<in> set row. length p = 3)"
    by (simp_all add: wf_ndarray_def list_all_iff)
  have "dezigzag w h (zigzag_bytes (px f)) = px f"
    using dezigzag_zigzag_bytes[OF rows] len by simp
  moreover have "zigzag_loop f (int w) (int h) = Inr (zigzag_bytes (px f))"
    using assms by (rule zigzag_loop_ok)
  ultimately show ?thesis
    using assms(2)
    by (simp add: prepare_pixel_data_standard_zigzag_def
        prepare_pixel_data_standard_zigzag_video_def)
qed

theorem zigzag_round_trip_witness:
  "wf_ndarray frame2x2 \<and> shape frame2x2 = (2, 2, 3)
   \<and> prepare_pixel_data_standard_zigzag_video frame2x2 2 2
       = ([], Inr (Some [1, 2, 3, 4, 5, 6, 10, 11, 12, 7, 8, 9]))
   \<and> dezigzag 2 2 [1, 2, 3, 4, 5, 6, 10, 11, 12, 7, 8, 9] = px frame2x2"
proof -
  have s: "shape frame2x2 = (2, 2, 3)" by (simp add: frame2x2_def)
  have v: "prepare_pixel_data_standard_zigzag_video frame2x2 2 2
       = ([], Inr (Some [1, 2, 3, 4, 5, 6, 10, 11, 12, 7, 8, 9]))"
    by (simp add: prepare_pixel_data_standard_zigzag_video_def
      frame2x2_def zigzag_loop_def py_range_def py_range_down_def getitem_def upt_rec)
  from zigzag_round_trip[OF wf_frame2x2 s, of no_resize] v
  have "dezigzag 2 2 [1, 2, 3, 4, 5, 6, 10, 11, 12, 7, 8, 9] = px frame2x2"
    by auto
  with wf_frame2x2 s v show ?thesis by simp
qed

section \<open>The events of a pass\<close>

lemma length_warnings_append:
  "length_warnings (a @ b) = length_warnings a @ length_warnings b"
  by (induction a rule: length_warnings.induct) simp_all

lemma serial_writes_append:
  "serial_writes (a @ b) = serial_writes a @ serial_writes b"
  by (induction a rule: serial_writes.induct) simp_all

lemma slept_append: "slept (a @ b) = slept a + slept b"
  by (induction a rule: slept.induct) simp_all

lemma resize_calls_append:
  "resize_calls (a @ b) = resize_calls a @ resize_calls b"
  by (induction a rule: resize_calls.induct) simp_all

lemma mismatch_diag_quiet [simp]:
  "length_warnings (mismatch_diag s gw gh # evs) = length_warnings evs"
  "serial_writes (mismatch_diag s gw gh # evs) = serial_writes evs"
  "slept (mismatch_diag s gw gh # evs) = slept evs"
  "resize_calls (mismatch_diag s gw gh # evs) = resize_calls evs"
  by (cases s; simp)+

lemma fst_returning [simp]: "fst (returning evs r) = evs"
  by (cases r) simp_all

lemma video_prepare_quiet:
  "length_warnings (fst (prepare_pixel_data_standard_zigzag_video f gw gh)) = []"
  "serial_writes (fst (prepare_pixel_data_standard_zigzag_video f gw gh)) = []"
  "slept (fst (prepare_pixel_data_standard_zigzag_video f gw gh)) = 0"
  by (simp_all add: prepare_pixel_data_standard_zigzag_video_def)

lemma screen_prepare_quiet:
  "length_warnings (fst (prepare_pixel_data_standard_zigzag resize f gw gh)) = []"
  "serial_writes (fst (prepare_pixel_data_standard_zigzag resize f gw gh)) = []"
  "slept (fst (prepare_pixel_data_standard_zigzag resize f gw gh)) = 0"
  by (simp_all add: prepare_pixel_data_standard_zigzag_def Let_def split: sum.splits resized.splits)

lemma write_failed_quiet [simp]:
  "length_warnings (write_failed w n) = []"
  "serial_writes (write_failed w n) = []"
  "slept (write_failed w n) = 0"
  by (cases w; simp)+

lemma pace_quiet [simp]:
  "length_warnings (pace d s e) = []"
  "serial_writes (pace d s e) = []"
  by (simp_all add: pace_def Let_def)

lemma slept_pace:
  "slept (pace d s e) = (if e - s < d then d - (e - s) else 0)"
  by (simp add: pace_def Let_def)

lemma length_packet_of: "int (length (packet_of bs)) = 2 + int (length bs)"
  by (simp add: packet_of_def)

lemma send_packet_no_warning:
  assumes "int (length bs) = grid_width cfg * grid_height cfg * 3"
  shows "length_warnings (fst (send_packet cfg n bs io)) = []"
  using assms
  by (cases "write_outcome io")
     (simp_all add: send_packet_def Let_def length_packet_of length_warnings_append)

lemma send_packet_video_no_warning:
  assumes "int (length bs) = grid_width cfg * grid_height cfg * 3"
  shows "length_warnings (fst (send_packet_video cfg orig st bs io)) = []"
  using assms
  by (cases "write_outcome io")
     (simp_all add: send_packet_video_def Let_def length_packet_of length_warnings_append)

lemma send_packet_writes:
  "serial_writes (fst (send_packet cfg n bs io)) = [packet_of bs]"
  by (cases "write_outcome io")
     (simp_all add: send_packet_def Let_def serial_writes_append)

lemma send_packet_video_writes:
  "serial_writes (fst (send_packet_video cfg orig st bs io)) = [packet_of bs]"
  by (cases "write_outcome io")
     (simp_all add: send_packet_video_def Let_def serial_writes_append)

lemma screen_iteration_no_warning:
  "length_warnings (fst (screen_iteration resize cfg n f io)) = []"
proof -
  let ?gw = "grid_width cfg" and ?gh = "grid_height cfg"
  obtain evs r where p: "prepare_pixel_data_standard_zigzag resize f ?gw ?gh = (evs, r)"
    by (cases "prepare_pixel_data_standard_zigzag resize f ?gw ?gh") auto
  have q: "length_warnings evs = []"
    using screen_prepare_quiet(1)[of resize f ?gw ?gh] p by simp
  show ?thesis
  proof (cases r)
    case (Inl e)
    with p q show ?thesis by (simp add: screen_iteration_def)
  next
    case (Inr res)
    show ?thesis
    proof (cases res)
      case None
      with Inr p q show ?thesis by (simp add: screen_iteration_def length_warnings_append)
    next
      case (Some bs)
      with Inr p have "int (length bs) = ?gw * ?gh * 3"
        by (auto dest: screen_prepared_length)
      then have w: "length_warnings (fst (send_packet cfg n bs io)) = []"
        by (rule send_packet_no_warning)
      obtain evs' n' c where sp: "send_packet cfg n bs io = (evs', n', c)"
        by (cases "send_packet cfg n bs io") auto
      with w have "length_warnings evs' = []" by simp
      with sp Some Inr p q show ?thesis
        by (simp add: screen_iteration_def length_warnings_append)
    qed
  qed
qed

lemma video_iteration_no_warning:
  "length_warnings (fst (video_iteration cfg skip orig st io)) = []"
proof -
  let ?gw = "grid_width cfg" and ?gh = "grid_height cfg"
  obtain fr frames idx where
    rd: "read_skipping (nat skip) (cap st) (processed_frame_index st) None = (fr, frames, idx)"
    by (cases "read_skipping (nat skip) (cap st) (processed_frame_index st) None") auto
  show ?thesis
  proof (cases fr)
    case None
    with rd show ?thesis by (simp add: video_iteration_def)
  next
    case (Some f)
    obtain evs r where p: "prepare_pixel_data_standard_zigzag_video f ?gw ?gh = (evs, r)"
      by (cases "prepare_pixel_data_standard_zigzag_video f ?gw ?gh") auto
    have q: "length_warnings evs = []"
      using video_prepare_quiet(1)[of f ?gw ?gh] p by simp
    show ?thesis
    proof (cases r)
      case (Inl e)
      with Some rd p q show ?thesis by (simp add: video_iteration_def)
    next
      case (Inr res)
      show ?thesis
      proof (cases res)
        case None
        with Inr Some rd p q show ?thesis
          by (simp add: video_iteration_def length_warnings_append)
      next
        case (Some bs)
        with Inr p have "int (length bs) = ?gw * ?gh * 3"
          by (auto dest: video_prepared_length)
        then have w: "length_warnings (fst (send_packet_video cfg orig
            (st\<lparr>processed_frame_index := idx, cap := frames\<rparr>) bs io)) = []"
          by (rule send_packet_video_no_warning)
        obtain evs' st' c where sp: "send_packet_video cfg orig
            (st\<lparr>processed_frame_index := idx, cap := frames\<rparr>) bs io = (evs', st', c)"
          by (cases "send_packet_video cfg orig
            (st\<lparr>processed_frame_index := idx, cap := frames\<rparr>) bs io") auto
        with w have "length_warnings evs' = []" by simp
        with sp Some Inr \<open>fr = Some f\<close> rd p q show ?thesis
          by (simp add: video_iteration_def length_warnings_append)
      qed
    qed
  qed
qed

lemma screen_loop_no_warning:
  "length_warnings (fst (screen_loop resize cfg n inputs)) = []"
proof (induction inputs arbitrary: n)
  case Nil
  then show ?case by simp
next
  case (Cons a inputs)
  obtain f io where a: "a = (f, io)" by (cases a) auto
  obtain evs n' c where it: "screen_iteration resize cfg n f io = (evs, n', c)"
    by (cases "screen_iteration resize cfg n f io") auto
  have q: "length_warnings evs = []"
    using screen_iteration_no_warning[of resize cfg n f io] it by simp
  obtain evs' m where lp: "screen_loop resize cfg n' inputs = (evs', m)"
    by (cases "screen_loop resize cfg n' inputs") auto
  with Cons.IH[of n'] have "length_warnings evs' = []" by simp
  with a it q lp show ?case
    by (cases c) (simp_all add: length_warnings_append)
qed

lemma video_loop_no_warning:
  "length_warnings (fst (video_loop cfg skip orig st ios)) = []"
proof (induction ios arbitrary: st)
  case Nil
  then show ?case by simp
next
  case (Cons io ios)
  obtain evs st' c where it: "video_iteration cfg skip orig st io = (evs, st', c)"
    by (cases "video_iteration cfg skip orig st io") auto
  have q: "length_warnings evs = []"
    using video_iteration_no_warning[of cfg skip orig st io] it by simp
  obtain evs' st'' where lp: "video_loop cfg skip orig st' ios = (evs', st'')"
    by (cases "video_loop cfg skip orig st' ios") auto
  with Cons.IH[of st'] have "length_warnings evs' = []" by simp
  with it q lp show ?case
    by (cases c) (simp_all add: length_warnings_append)
qed

section \<open>Packets\<close>

text \<open>
  C10. Whenever a serializer returns a list (not \<open>None\<close>), the list has exactly
  \<open>grid_width * grid_height * 3\<close> elements; hence no run of either loop ever prints the
  warning about a packet length mismatch: that branch is unreachable.
\<close>

theorem prepared_length_exact:
  "(prepare_pixel_data_standard_zigzag resize f gw gh = (evs, Inr (Some bs))
      \<longrightarrow> int (length bs) = gw * gh * 3)
   \<and> (prepare_pixel_data_standard_zigzag_video f gw gh = (evs, Inr (Some bs))
      \<longrightarrow> int (length bs) = gw * gh * 3)
   \<and> length_warnings (fst (screen_loop resize cfg n inputs)) = []
   \<and> length_warnings (fst (video_loop cfg skip orig st ios)) = []"
  using screen_prepared_length[of resize f gw gh evs bs]
    video_prepared_length[of f gw gh evs bs]
    screen_loop_no_warning[of resize cfg n inputs]
    video_loop_no_warning[of cfg skip orig st ios]
  by blast

lemma video_frame2x2:
  "prepare_pixel_data_standard_zigzag_video frame2x2 2 2
     = ([], Inr (Some [1, 2, 3, 4, 5, 6, 10, 11, 12, 7, 8, 9]))"
  by (simp add: prepare_pixel_data_standard_zigzag_video_def
      frame2x2_def zigzag_loop_def py_range_def py_range_down_def getitem_def upt_rec)

lemma screen_frame2x2:
  "prepare_pixel_data_standard_zigzag resize frame2x2 2 2
     = ([], Inr (Some [1, 2, 3, 4, 5, 6, 10, 11, 12, 7, 8, 9]))"
  by (simp add: prepare_pixel_data_standard_zigzag_def
      frame2x2_def zigzag_loop_def py_range_def py_range_down_def getitem_def upt_rec)

theorem prepared_length_exact_witness:
  "prepare_pixel_data_standard_zigzag no_resize frame2x2 2 2
     = ([], Inr (Some [1, 2, 3, 4, 5, 6, 10, 11, 12, 7, 8, 9]))
   \<and> prepare_pixel_data_standard_zigzag_video frame2x2 2 2
     = ([], Inr (Some [1, 2, 3, 4, 5, 6, 10, 11, 12, 7, 8, 9]))
   \<and> int (length [1, 2, 3, 4, 5, 6, 10, 11, 12, 7, 8, 9 :: byte]) = 2 * 2 * 3
   \<and> length_warnings (fst (screen_loop no_resize cfg2x2 0 [(frame2x2, env_fast)])) = []
   \<and> length_warnings (fst (video_loop cfg2x2 1 2 (vstate0 [frame2x2]) [venv_fast])) = []"
  using prepared_length_exact[of no_resize frame2x2 2 2 "[]"
      "[1, 2, 3, 4, 5, 6, 10, 11, 12, 7, 8, 9]" cfg2x2 0 "[(frame2x2, env_fast)]"
      1 2 "vstate0 [frame2x2]" "[venv_fast]"]
    screen_frame2x2[of no_resize] video_frame2x2
  by simp

lemma screen_iteration_sends:
  assumes "prepare_pixel_data_standard_zigzag resize f (grid_width cfg) (grid_height cfg)
             = (evs, Inr (Some bs))"
  shows "serial_writes (fst (screen_iteration resize cfg n f io)) = [packet_of bs]"
proof -
  have q: "serial_writes evs = []"
    using screen_prepare_quiet(2)[of resize f "grid_width cfg" "grid_height cfg"] assms by simp
  obtain evs' n' c where sp: "send_packet cfg n bs io = (evs', n', c)"
    by (cases "send_packet cfg n bs io") auto
  with send_packet_writes[of cfg n bs io] have "serial_writes evs' = [packet_of bs]" by simp
  with sp q assms show ?thesis
    by (simp add: screen_iteration_def serial_writes_append)
qed

lemma video_iteration_sends:
  assumes "read_skipping (nat skip) (cap st) (processed_frame_index st) None
             = (Some f, frames, idx)"
    and "prepare_pixel_data_standard_zigzag_video f (grid_width cfg) (grid_height cfg)
             = (evs, Inr (Some bs))"
  shows "serial_writes (fst (video_iteration cfg skip orig st io)) = [packet_of bs]"
proof -
  let ?st1 = "st\<lparr>processed_frame_index := idx, cap := frames\<rparr>"
  have q: "serial_writes evs = []"
    using video_prepare_quiet(2)[of f "grid_width cfg" "grid_height cfg"] assms(2) by simp
  obtain evs' st' c where sp: "send_packet_video cfg orig ?st1 bs io = (evs', st', c)"
    by (cases "send_packet_video cfg orig ?st1 bs io") auto
  with send_packet_video_writes[of cfg orig ?st1 bs io]
  have "serial_writes evs' = [packet_of bs]" by simp
  with sp q assms show ?thesis
    by (simp add: video_iteration_def serial_writes_append)
qed

text \<open>
  C4. For every frame that is serialized successfully, the one packet handed to the serial
  port in that pass is the two header bytes \<open>0xA5, 0x5A\<close> followed by the payload, and
  its length is \<open>2 + 3 * grid_width * grid_height\<close>; in the screen loop and in the video
  loop.
\<close>

theorem packet_header_and_length:
  "(prepare_pixel_data_standard_zigzag resize f (grid_width cfg) (grid_height cfg)
        = (evs, Inr (Some bs))
      \<longrightarrow> serial_writes (fst (screen_iteration resize cfg n f io)) = [[0xA5, 0x5A] @ bs]
        \<and> int (length ([0xA5, 0x5A] @ bs)) = 2 + 3 * grid_width cfg * grid_height cfg)
   \<and> (read_skipping (nat skip) (cap st) (processed_frame_index st) None = (Some f, frames, idx)
      \<and> prepare_pixel_data_standard_zigzag_video f (grid_width cfg) (grid_height cfg)
        = (evs, Inr (Some bs))
      \<longrightarrow> serial_writes (fst (video_iteration cfg skip orig st vio)) = [[0xA5, 0x5A] @ bs]
        \<and> int (length ([0xA5, 0x5A] @ bs)) = 2 + 3 * grid_width cfg * grid_height cfg)"
proof (intro conjI impI)
  assume a: "prepare_pixel_data_standard_zigzag resize f (grid_width cfg) (grid_height cfg)
        = (evs, Inr (Some bs))"
  from screen_iteration_sends[OF a]
  show "serial_writes (fst (screen_iteration resize cfg n f io)) = [[0xA5, 0x5A] @ bs]"
    by (simp add: packet_of_def START_BYTE_1_def START_BYTE_2_def)
  from screen_prepared_length[OF a]
  show "int (length ([0xA5, 0x5A] @ bs)) = 2 + 3 * grid_width cfg * grid_height cfg"
    by simp
next
  assume a: "read_skipping (nat skip) (cap st) (processed_frame_index st) None
        = (Some f, frames, idx)
      \<and> prepare_pixel_data_standard_zigzag_video f (grid_width cfg) (grid_height cfg)
        = (evs, Inr (Some bs))"
  from video_iteration_sends[OF conjunct1[OF a] conjunct2[OF a]]
  show "serial_writes (fst (video_iteration cfg skip orig st vio)) = [[0xA5, 0x5A] @ bs]"
    by (simp add: packet_of_def START_BYTE_1_def START_BYTE_2_def)
  from video_prepared_length[OF conjunct2[OF a]]
  show "int (length ([0xA5, 0x5A] @ bs)) = 2 + 3 * grid_width cfg * grid_height cfg"
    by simp
qed

theorem packet_header_and_length_witness:
  "prepare_pixel_data_standard_zigzag no_resize frame2x2 (grid_width cfg2x2) (grid_height cfg2x2)
     = ([], Inr (Some [1, 2, 3, 4, 5, 6, 10, 11, 12, 7, 8, 9]))
   \<and> serial_writes (fst (screen_iteration no_resize cfg2x2 0 frame2x2 env_fast))
     = [[0xA5, 0x5A, 1, 2, 3, 4, 5, 6, 10, 11, 12, 7, 8, 9]]
   \<and> read_skipping (nat 1) (cap (vstate0 [frame2x2])) (processed_frame_index (vstate0 [frame2x2]))
       None = (Some frame2x2, [], 1)
   \<and> prepare_pixel_data_standard_zigzag_video frame2x2 (grid_width cfg2x2) (grid_height cfg2x2)
     = ([], Inr (Some [1, 2, 3, 4, 5, 6, 10, 11, 12, 7, 8, 9]))
   \<and> serial_writes (fst (video_iteration cfg2x2 1 2 (vstate0 [frame2x2]) venv_fast))
     = [[0xA5, 0x5A, 1, 2, 3, 4, 5, 6, 10, 11, 12, 7, 8, 9]]
   \<and> int (length [0xA5, 0x5A, 1, 2, 3, 4, 5, 6, 10, 11, 12, 7, 8, 9 :: byte])
     = 2 + 3 * grid_width cfg2x2 * grid_height cfg2x2"
proof -
  have g: "grid_width cfg2x2 = 2" "grid_height cfg2x2 = 2" by (simp_all add: cfg2x2_def)
  have r: "read_skipping (nat 1) (cap (vstate0 [frame2x2]))
             (processed_frame_index (vstate0 [frame2x2])) None = (Some frame2x2, [], 1)"
    by (simp add: vstate0_def)
  show ?thesis
    using packet_header_and_length[of no_resize frame2x2 cfg2x2 "[]"
        "[1, 2, 3, 4, 5, 6, 10, 11, 12, 7, 8, 9]" 0 env_fast 1 "vstate0 [frame2x2]" "[]" 1
        2 venv_fast]
      screen_frame2x2[of no_resize] video_frame2x2 r g
    by simp
qed

section \<open>Length anomaly and pacing\<close>

text \<open>
  C6. When the length of the packet differs from \<open>2 + grid_width * grid_height * 3\<close>,
  the pass first prints the warning and then still hands the packet to the serial port;
  after a successful write the frame is counted and the loop goes on as for any other
  packet. In the screen program and in the video program.
\<close>

theorem length_anomaly_still_sent:
  assumes "int (length (packet_of bs)) \<noteq> 2 + grid_width cfg * grid_height cfg * 3"
  shows "take 2 (fst (send_packet cfg n bs io))
           = [Stderr (WarnPacketLength (n + 1) (2 + grid_width cfg * grid_height cfg * 3)
                        (int (length (packet_of bs)))),
              SerialWrite (packet_of bs)]
       \<and> (write_outcome io = Written \<longrightarrow> snd (send_packet cfg n bs io) = (n + 1, Continue))
       \<and> take 2 (fst (send_packet_video cfg orig st bs vio))
           = [Stderr (WarnPacketLengthSrc (frame_count st + 1) (processed_frame_index st - 1)
                        (2 + grid_width cfg * grid_height cfg * 3)
                        (int (length (packet_of bs)))),
              SerialWrite (packet_of bs)]
       \<and> (write_outcome vio = Written \<longrightarrow>
            snd (send_packet_video cfg orig st bs vio)
              = (st\<lparr>frame_count := frame_count st + 1\<rparr>, Continue))"
proof (intro conjI impI)
  show "take 2 (fst (send_packet cfg n bs io))
           = [Stderr (WarnPacketLength (n + 1) (2 + grid_width cfg * grid_height cfg * 3)
                        (int (length (packet_of bs)))),
              SerialWrite (packet_of bs)]"
    using assms by (cases "write_outcome io") (simp_all add: send_packet_def Let_def)
  show "take 2 (fst (send_packet_video cfg orig st bs vio))
           = [Stderr (WarnPacketLengthSrc (frame_count st + 1) (processed_frame_index st - 1)
                        (2 + grid_width cfg * grid_height cfg * 3)
                        (int (length (packet_of bs)))),
              SerialWrite (packet_of bs)]"
    using assms by (cases "write_outcome vio") (simp_all add: send_packet_video_def Let_def)
next
  assume "write_outcome io = Written"
  then show "snd (send_packet cfg n bs io) = (n + 1, Continue)"
    by (simp add: send_packet_def Let_def)
next
  assume "write_outcome vio = Written"
  then show "snd (send_packet_video cfg orig st bs vio)
              = (st\<lparr>frame_count := frame_count st + 1\<rparr>, Continue)"
    by (simp add: send_packet_video_def Let_def)
qed

theorem length_anomaly_still_sent_witness:
  "int (length (packet_of [1])) \<noteq> 2 + grid_width cfg2x2 * grid_height cfg2x2 * 3
   \<and> take 2 (fst (send_packet cfg2x2 0 [1] env_fast))
       = [Stderr (WarnPacketLength 1 14 3), SerialWrite [0xA5, 0x5A, 1]]
   \<and> write_outcome env_fast = Written
   \<and> snd (send_packet cfg2x2 0 [1] env_fast) = (1, Continue)
   \<and> take 2 (fst (send_packet_video cfg2x2 2 (vstate0 []) [1] venv_fast))
       = [Stderr (WarnPacketLengthSrc 1 (- 1) 14 3), SerialWrite [0xA5, 0x5A, 1]]
   \<and> write_outcome venv_fast = Written
   \<and> snd (send_packet_video cfg2x2 2 (vstate0 []) [1] venv_fast)
       = ((vstate0 [])\<lparr>frame_count := 1\<rparr>, Continue)"
proof -
  have h: "int (length (packet_of [1])) \<noteq> 2 + grid_width cfg2x2 * grid_height cfg2x2 * 3"
    by (simp add: packet_of_def cfg2x2_def)
  have p: "packet_of [1] = [0xA5, 0x5A, 1]"
    by (simp add: packet_of_def START_BYTE_1_def START_BYTE_2_def)
  have w: "write_outcome env_fast = Written" "write_outcome venv_fast = Written"
    by (simp_all add: env_fast_def venv_fast_def)
  have g: "grid_width cfg2x2 = 2" "grid_height cfg2x2 = 2" by (simp_all add: cfg2x2_def)
  have s: "frame_count (vstate0 []) = 0" "processed_frame_index (vstate0 []) = 0"
    by (simp_all add: vstate0_def)
  from length_anomaly_still_sent[OF h, of 0 env_fast 2 "vstate0 []" venv_fast] w
  show ?thesis unfolding p g s using h by (simp add: g p)
qed

lemma send_packet_slept:
  assumes "write_outcome io = Written"
  shows "slept (fst (send_packet cfg n bs io))
     = (if frame_end_time io - frame_start_time io < 1 / real_of_int (target_fps cfg)
        then 1 / real_of_int (target_fps cfg) - (frame_end_time io - frame_start_time io)
        else 0)"
  using assms by (simp add: send_packet_def Let_def slept_append slept_pace frame_delay_def)

lemma send_packet_video_slept:
  assumes "write_outcome io = Written"
  shows "slept (fst (send_packet_video cfg orig st bs io))
     = (if frame_end_time io - frame_start_time io < 1 / real_of_int (target_fps cfg)
        then 1 / real_of_int (target_fps cfg) - (frame_end_time io - frame_start_time io)
        else 0)"
  using assms
  by (simp add: send_packet_video_def Let_def slept_append slept_pace frame_delay_def)

lemma screen_iteration_slept:
  assumes "prepare_pixel_data_standard_zigzag resize f (grid_width cfg) (grid_height cfg)
             = (evs, Inr (Some bs))"
  shows "slept (fst (screen_iteration resize cfg n f io)) = slept (fst (send_packet cfg n bs io))"
proof -
  have q: "slept evs = 0"
    using screen_prepare_quiet(3)[of resize f "grid_width cfg" "grid_height cfg"] assms by simp
  obtain evs' n' c where sp: "send_packet cfg n bs io = (evs', n', c)"
    by (cases "send_packet cfg n bs io") auto
  with q assms show ?thesis
    by (simp add: screen_iteration_def slept_append)
qed

lemma video_iteration_slept:
  assumes "read_skipping (nat skip) (cap st) (processed_frame_index st) None
             = (Some f, frames, idx)"
    and "prepare_pixel_data_standard_zigzag_video f (grid_width cfg) (grid_height cfg)
             = (evs, Inr (Some bs))"
  shows "slept (fst (video_iteration cfg skip orig st io))
     = slept (fst (send_packet_video cfg orig
          (st\<lparr>processed_frame_index := idx, cap := frames\<rparr>) bs io))"
proof -
  let ?st1 = "st\<lparr>processed_frame_index := idx, cap := frames\<rparr>"
  have q: "slept evs = 0"
    using video_prepare_quiet(3)[of f "grid_width cfg" "grid_height cfg"] assms(2) by simp
  obtain evs' st' c where sp: "send_packet_video cfg orig ?st1 bs io = (evs', st', c)"
    by (cases "send_packet_video cfg orig ?st1 bs io") auto
  with q assms show ?thesis
    by (simp add: video_iteration_def slept_append)
qed

text \<open>
  C8. In a pass that sends its packet, with the interval \<open>\<Delta> = 1 / target_fps\<close> and the
  measured time \<open>p = frame_end_time - frame_start_time\<close>, the pass blocks for exactly
  \<open>\<Delta> - p\<close> when \<open>p < \<Delta>\<close> and not at all when \<open>p \<ge> \<Delta>\<close>. This holds for every
  frame count and every state the earlier passes have left: nothing of an earlier pass
  enters, so no lateness is caught up.
\<close>

theorem pacer_sleeps_remainder:
  "(prepare_pixel_data_standard_zigzag resize f (grid_width cfg) (grid_height cfg)
        = (evs, Inr (Some bs))
      \<and> write_outcome io = Written
      \<longrightarrow> slept (fst (screen_iteration resize cfg n f io))
          = (if frame_end_time io - frame_start_time io < 1 / real_of_int (target_fps cfg)
             then 1 / real_of_int (target_fps cfg) - (frame_end_time io - frame_start_time io)
             else 0))
   \<and> (read_skipping (nat skip) (cap st) (processed_frame_index st) None = (Some f, frames, idx)
      \<and> prepare_pixel_data_standard_zigzag_video f (grid_width cfg) (grid_height cfg)
        = (evs, Inr (Some bs))
      \<and> write_outcome vio = Written
      \<longrightarrow> slept (fst (video_iteration cfg skip orig st vio))
          = (if frame_end_time vio - frame_start_time vio < 1 / real_of_int (target_fps cfg)
             then 1 / real_of_int (target_fps cfg) - (frame_end_time vio - frame_start_time vio)
             else 0))"
proof (intro conjI impI)
  assume a: "prepare_pixel_data_standard_zigzag resize f (grid_width cfg) (grid_height cfg)
        = (evs, Inr (Some bs)) \<and> write_outcome io = Written"
  show "slept (fst (screen_iteration resize cfg n f io))
          = (if frame_end_time io - frame_start_time io < 1 / real_of_int (target_fps cfg)
             then 1 / real_of_int (target_fps cfg) - (frame_end_time io - frame_start_time io)
             else 0)"
    using screen_iteration_slept[OF conjunct1[OF a], of n io]
      send_packet_slept[OF conjunct2[OF a], of cfg n bs]
    by simp
next
  assume a: "read_skipping (nat skip) (cap st) (processed_frame_index st) None
        = (Some f, frames, idx)
      \<and> prepare_pixel_data_standard_zigzag_video f (grid_width cfg) (grid_height cfg)
        = (evs, Inr (Some bs))
      \<and> write_outcome vio = Written"
  then have r: "read_skipping (nat skip) (cap st) (processed_frame_index st) None
        = (Some f, frames, idx)"
    and p: "prepare_pixel_data_standard_zigzag_video f (grid_width cfg) (grid_height cfg)
        = (evs, Inr (Some bs))"
    and w: "write_outcome vio = Written"
    by simp_all
  show "slept (fst (video_iteration cfg skip orig st vio))
          = (if frame_end_time vio - frame_start_time vio < 1 / real_of_int (target_fps cfg)
             then 1 / real_of_int (target_fps cfg) - (frame_end_time vio - frame_start_time vio)
             else 0)"
    using video_iteration_slept[OF r p, of orig vio]
      send_packet_video_slept[OF w, of cfg orig
        "st\<lparr>processed_frame_index := idx, cap := frames\<rparr>" bs]
    by simp
qed

lemma delay_cfg2x2: "1 / real_of_int (target_fps cfg2x2) = 1 / 5"
  by (simp add: cfg2x2_def)

theorem pacer_sleeps_remainder_witness:
  "prepare_pixel_data_standard_zigzag no_resize frame2x2 (grid_width cfg2x2) (grid_height cfg2x2)
     = ([], Inr (Some [1, 2, 3, 4, 5, 6, 10, 11, 12, 7, 8, 9]))
   \<and> write_outcome env_fast = Written
   \<and> frame_end_time env_fast - frame_start_time env_fast = 1 / 20
   \<and> slept (fst (screen_iteration no_resize cfg2x2 0 frame2x2 env_fast)) = 3 / 20
   \<and> read_skipping (nat 1) (cap (vstate0 [frame2x2])) (processed_frame_index (vstate0 [frame2x2]))
       None = (Some frame2x2, [], 1)
   \<and> prepare_pixel_data_standard_zigzag_video frame2x2 (grid_width cfg2x2) (grid_height cfg2x2)
     = ([], Inr (Some [1, 2, 3, 4, 5, 6, 10, 11, 12, 7, 8, 9]))
   \<and> write_outcome venv_slow = Written
   \<and> frame_end_time venv_slow - frame_start_time venv_slow = 1 / 4
   \<and> slept (fst (video_iteration cfg2x2 1 2 (vstate0 [frame2x2]) venv_slow)) = 0"
proof -
  have g: "grid_width cfg2x2 = 2" "grid_height cfg2x2 = 2" by (simp_all add: cfg2x2_def)
  have r: "read_skipping (nat 1) (cap (vstate0 [frame2x2]))
             (processed_frame_index (vstate0 [frame2x2])) None = (Some frame2x2, [], 1)"
    by (simp add: vstate0_def)
  have e: "write_outcome env_fast = Written"
      "frame_end_time env_fast - frame_start_time env_fast = 1 / 20"
    by (simp_all add: env_fast_def)
  have v: "write_outcome venv_slow = Written"
      "frame_end_time venv_slow - frame_start_time venv_slow = 1 / 4"
    by (simp_all add: venv_slow_def)
  show ?thesis
    using pacer_sleeps_remainder[of no_resize frame2x2 cfg2x2 "[]"
        "[1, 2, 3, 4, 5, 6, 10, 11, 12, 7, 8, 9]" env_fast 0 1 "vstate0 [frame2x2]" "[]" 1
        venv_slow 2]
      screen_frame2x2[of no_resize] video_frame2x2 r g e v delay_cfg2x2
    by simp
qed

text \<open>
  A pass of 250 ms followed by a pass of 50 ms: the loop blocks 150 ms in all, the
  remainder of the second pass alone.
\<close>

lemma late_pass_not_caught_up:
  "slept (fst (screen_loop no_resize cfg2x2 0 [(frame2x2, env_slow), (frame2x2, env_fast)]))
     = 3 / 20"
proof -
  have g: "grid_width cfg2x2 = 2" "grid_height cfg2x2 = 2" by (simp_all add: cfg2x2_def)
  have p: "prepare_pixel_data_standard_zigzag no_resize frame2x2 (grid_width cfg2x2)
      (grid_height cfg2x2) = ([], Inr (Some [1, 2, 3, 4, 5, 6, 10, 11, 12, 7, 8, 9]))"
    using screen_frame2x2[of no_resize] g by simp
  show ?thesis
    by (simp add: screen_iteration_def screen_frame2x2 send_packet_def Let_def pace_def
        frame_delay_def packet_of_def cfg2x2_def env_slow_def env_fast_def slept_append)
qed

section \<open>Frame skipping and determinism\<close>

lemma py_round_nearest: "\<bar>x - real_of_int (py_round x)\<bar> \<le> 1 / 2"
proof -
  have "real_of_int \<lfloor>x\<rfloor> \<le> x" "x < real_of_int \<lfloor>x\<rfloor> + 1" by linarith+
  then show ?thesis by (auto simp: py_round_def Let_def)
qed

lemma py_round_examples:
  "py_round 6 = 6" "py_round 1 = 1" "py_round (5 / 2) = 2" "py_round (7 / 2) = 4"
  by (simp_all add: py_round_def Let_def)

text \<open>
  C5. The skip count is 1 when the native frame rate is not positive and
  \<open>max(1, round(F_native / F_target))\<close> otherwise, where \<open>round\<close> is Python's \<open>round\<close>
  (an integer nearest to its argument, the even one at a tie); it is never below 1; and
  the rates 30 and 5 give 6, a native rate of 0 gives 1, the rates 24 and 24 give 1.
\<close>

theorem frames_to_skip_value:
  "snd (frames_to_skip F_native F_target)
     = (if F_native \<le> 0 then 1 else max 1 (py_round (F_native / real_of_int F_target)))
   \<and> \<bar>F_native / real_of_int F_target - real_of_int (py_round (F_native / real_of_int F_target))\<bar>
       \<le> 1 / 2
   \<and> 1 \<le> snd (frames_to_skip F_native F_target)
   \<and> frames_to_skip 30 5 = ([], 6)
   \<and> frames_to_skip 0 F_target = ([Stderr WarnNoFps], 1)
   \<and> frames_to_skip 24 24 = ([], 1)"
  using py_round_nearest[of "F_native / real_of_int F_target"]
  by (simp add: frames_to_skip_def py_round_examples)

text \<open>
  C9. The serializer is deterministic. The video program's serializer is a function of
  the frame and the grid dimensions alone. The screen program's serializer consults
  nothing but its arguments and, on a mismatch, the answer of \<open>cv2.resize\<close> for exactly
  these arguments: two runs in which that answer is the same return the same events and
  the same result. On a frame of the grid's dimensions the resampler is not consulted at
  all, nothing is printed, and both serializers return the same.
\<close>

theorem serializer_deterministic:
  "(resize1 f gw gh = resize2 f gw gh
      \<longrightarrow> prepare_pixel_data_standard_zigzag resize1 f gw gh
          = prepare_pixel_data_standard_zigzag resize2 f gw gh)
   \<and> (\<not> dims_mismatch (shape f) gw gh
      \<longrightarrow> prepare_pixel_data_standard_zigzag resize1 f gw gh
            = prepare_pixel_data_standard_zigzag_video f gw gh
          \<and> fst (prepare_pixel_data_standard_zigzag_video f gw gh) = [])"
  by (simp add: prepare_pixel_data_standard_zigzag_def prepare_pixel_data_standard_zigzag_video_def)

lemma match_2x2: "\<not> dims_mismatch (shape frame2x2) 2 2"
  by (simp add: frame2x2_def)

theorem serializer_deterministic_witness:
  "resize_to_2x2 frame1x1 2 2 = resize_if_2x2 frame1x1 2 2
   \<and> resize_to_2x2 frame1x1 2 3 \<noteq> resize_if_2x2 frame1x1 2 3
   \<and> prepare_pixel_data_standard_zigzag resize_to_2x2 frame1x1 2 2
       = prepare_pixel_data_standard_zigzag resize_if_2x2 frame1x1 2 2
   \<and> \<not> dims_mismatch (shape frame2x2) 2 2
   \<and> prepare_pixel_data_standard_zigzag no_resize frame2x2 2 2
       = prepare_pixel_data_standard_zigzag_video frame2x2 2 2
   \<and> fst (prepare_pixel_data_standard_zigzag_video frame2x2 2 2) = []"
proof -
  have a: "resize_to_2x2 frame1x1 2 2 = resize_if_2x2 frame1x1 2 2"
    by (simp add: resize_to_2x2_def resize_if_2x2_def)
  have b: "resize_to_2x2 frame1x1 2 3 \<noteq> resize_if_2x2 frame1x1 2 3"
    by (simp add: resize_to_2x2_def resize_if_2x2_def)
  from serializer_deterministic[of resize_to_2x2 frame1x1 2 2 resize_if_2x2] a
  have c: "prepare_pixel_data_standard_zigzag resize_to_2x2 frame1x1 2 2
       = prepare_pixel_data_standard_zigzag resize_if_2x2 frame1x1 2 2"
    by blast
  from serializer_deterministic[of no_resize frame2x2 2 2 no_resize] match_2x2
  have d: "prepare_pixel_data_standard_zigzag no_resize frame2x2 2 2
       = prepare_pixel_data_standard_zigzag_video frame2x2 2 2
     \<and> fst (prepare_pixel_data_standard_zigzag_video frame2x2 2 2) = []"
    by blast
  from a b c d match_2x2 show ?thesis by blast
qed

section \<open>Frames of the wrong dimensions\<close>

lemma screen_mismatch_events:
  assumes "dims_mismatch (shape f) gw gh"
  shows "resize_calls (fst (prepare_pixel_data_standard_zigzag resize f gw gh)) = [CvResize gw gh]"
    and "hd (fst (prepare_pixel_data_standard_zigzag resize f gw gh)) = mismatch_diag (shape f) gw gh"
  using assms
  by (simp_all add: prepare_pixel_data_standard_zigzag_def Let_def resize_calls_append
      split: sum.splits resized.splits)

lemma screen_mismatch_None:
  assumes "dims_mismatch (shape f) gw gh"
    and "\<forall>f'. resize f gw gh = Inr (Array3 f') \<longrightarrow> dims_mismatch (shape f') gw gh"
  shows "snd (prepare_pixel_data_standard_zigzag resize f gw gh) = Inr None"
  using assms
  by (simp add: prepare_pixel_data_standard_zigzag_def Let_def split: sum.splits resized.splits)

lemma screen_iteration_None:
  assumes "snd (prepare_pixel_data_standard_zigzag resize f (grid_width cfg) (grid_height cfg))
             = Inr None"
  shows "screen_iteration resize cfg n f io
     = (fst (prepare_pixel_data_standard_zigzag resize f (grid_width cfg) (grid_height cfg))
          @ [Stdout (SkipFrame (n + 1)), Sleep (1 / 100)], n, Continue)"
proof -
  obtain evs r where p: "prepare_pixel_data_standard_zigzag resize f (grid_width cfg)
      (grid_height cfg) = (evs, r)"
    by (cases "prepare_pixel_data_standard_zigzag resize f (grid_width cfg) (grid_height cfg)")
      auto
  with assms have "r = Inr None" by simp
  with p show ?thesis by (simp add: screen_iteration_def)
qed

lemma screen_loop_Continue:
  assumes "screen_iteration resize cfg n f io = (evs, n', Continue)"
  shows "screen_loop resize cfg n ((f, io) # rest)
     = (evs @ fst (screen_loop resize cfg n' rest), snd (screen_loop resize cfg n' rest))"
  using assms by (simp split: prod.splits)

lemma video_loop_Continue:
  assumes "video_iteration cfg skip orig st io = (evs, st', Continue)"
  shows "video_loop cfg skip orig st (io # rest)
     = (evs @ fst (video_loop cfg skip orig st' rest), snd (video_loop cfg skip orig st' rest))"
  using assms by (simp split: prod.splits)

lemma video_mismatch_None:
  assumes "dims_mismatch (shape f) gw gh"
  shows "prepare_pixel_data_standard_zigzag_video f gw gh
     = ([mismatch_diag (shape f) gw gh], Inr None)"
  using assms by (simp add: prepare_pixel_data_standard_zigzag_video_def)

lemma video_iteration_mismatch:
  assumes "dims_mismatch (shape f) (grid_width cfg) (grid_height cfg)"
    and "read_skipping (nat skip) (cap st) (processed_frame_index st) None
           = (Some f, frames, idx)"
  shows "video_iteration cfg skip orig st io
     = ([mismatch_diag (shape f) (grid_width cfg) (grid_height cfg),
         Stdout (SkipSourceFrame (idx - 1))],
        st\<lparr>processed_frame_index := idx, cap := frames,
           last_frame_send_time := skip_time io\<rparr>, Continue)"
  using assms by (simp add: video_iteration_def video_mismatch_None)

text \<open>
  C7, as the code has it. On a frame whose dimensions mismatch the grid, the serializer of
  the screen program prints the mismatch and calls the resampler exactly once; when the
  resampler raises, returns an array of another rank or returns a frame that still
  mismatches, the serializer returns \<open>None\<close>. The serializer of the video program prints
  the mismatch and returns \<open>None\<close> at once, with no resample. In both programs a pass
  whose serializer returned \<open>None\<close> writes nothing to the serial port, leaves the frame
  count as it is, and the loop goes on with the next pass.
\<close>

theorem mismatch_frame_dropped:
  assumes "dims_mismatch (shape f) (grid_width cfg) (grid_height cfg)"
  shows "resize_calls (fst (prepare_pixel_data_standard_zigzag resize f
                              (grid_width cfg) (grid_height cfg)))
           = [CvResize (grid_width cfg) (grid_height cfg)]
       \<and> hd (fst (prepare_pixel_data_standard_zigzag resize f (grid_width cfg) (grid_height cfg)))
           = mismatch_diag (shape f) (grid_width cfg) (grid_height cfg)
       \<and> ((\<forall>f'. resize f (grid_width cfg) (grid_height cfg) = Inr (Array3 f')
                 \<longrightarrow> dims_mismatch (shape f') (grid_width cfg) (grid_height cfg))
           \<longrightarrow> snd (prepare_pixel_data_standard_zigzag resize f (grid_width cfg) (grid_height cfg))
                 = Inr None)
       \<and> (snd (prepare_pixel_data_standard_zigzag resize f (grid_width cfg) (grid_height cfg))
             = Inr None
           \<longrightarrow> serial_writes (fst (screen_iteration resize cfg n f io)) = []
             \<and> snd (screen_iteration resize cfg n f io) = (n, Continue)
             \<and> screen_loop resize cfg n ((f, io) # rest)
                 = (fst (screen_iteration resize cfg n f io) @ fst (screen_loop resize cfg n rest),
                    snd (screen_loop resize cfg n rest)))
       \<and> prepare_pixel_data_standard_zigzag_video f (grid_width cfg) (grid_height cfg)
           = ([mismatch_diag (shape f) (grid_width cfg) (grid_height cfg)], Inr None)
       \<and> (read_skipping (nat skip) (cap st) (processed_frame_index st) None
             = (Some f, frames, idx)
           \<longrightarrow> video_iteration cfg skip orig st vio
                 = ([mismatch_diag (shape f) (grid_width cfg) (grid_height cfg),
                     Stdout (SkipSourceFrame (idx - 1))],
                    st\<lparr>processed_frame_index := idx, cap := frames,
                       last_frame_send_time := skip_time vio\<rparr>, Continue)
             \<and> video_loop cfg skip orig st (vio # vrest)
                 = (fst (video_iteration cfg skip orig st vio)
                      @ fst (video_loop cfg skip orig
                              (st\<lparr>processed_frame_index := idx, cap := frames,
                                  last_frame_send_time := skip_time vio\<rparr>) vrest),
                    snd (video_loop cfg skip orig
                              (st\<lparr>processed_frame_index := idx, cap := frames,
                                  last_frame_send_time := skip_time vio\<rparr>) vrest)))"
proof (intro conjI impI)
  let ?gw = "grid_width cfg" and ?gh = "grid_height cfg"
  show "resize_calls (fst (prepare_pixel_data_standard_zigzag resize f ?gw ?gh))
           = [CvResize ?gw ?gh]"
    using assms by (rule screen_mismatch_events(1))
  show "hd (fst (prepare_pixel_data_standard_zigzag resize f ?gw ?gh))
           = mismatch_diag (shape f) ?gw ?gh"
    using assms by (rule screen_mismatch_events(2))
  show "prepare_pixel_data_standard_zigzag_video f ?gw ?gh
           = ([mismatch_diag (shape f) ?gw ?gh], Inr None)"
    using assms by (rule video_mismatch_None)
next
  assume "\<forall>f'. resize f (grid_width cfg) (grid_height cfg) = Inr (Array3 f')
                 \<longrightarrow> dims_mismatch (shape f') (grid_width cfg) (grid_height cfg)"
  with assms
  show "snd (prepare_pixel_data_standard_zigzag resize f (grid_width cfg) (grid_height cfg))
          = Inr None"
    by (rule screen_mismatch_None)
next
  assume a: "snd (prepare_pixel_data_standard_zigzag resize f (grid_width cfg) (grid_height cfg))
          = Inr None"
  note it = screen_iteration_None[OF a, of n io]
  show "serial_writes (fst (screen_iteration resize cfg n f io)) = []"
    using screen_prepare_quiet(2)[of resize f "grid_width cfg" "grid_height cfg"]
    by (simp add: it serial_writes_append)
  show "snd (screen_iteration resize cfg n f io) = (n, Continue)"
    by (simp add: it)
  show "screen_loop resize cfg n ((f, io) # rest)
          = (fst (screen_iteration resize cfg n f io) @ fst (screen_loop resize cfg n rest),
             snd (screen_loop resize cfg n rest))"
    using screen_loop_Continue[OF it, of rest] by (simp add: it)
next
  assume r: "read_skipping (nat skip) (cap st) (processed_frame_index st) None
             = (Some f, frames, idx)"
  note it = video_iteration_mismatch[OF assms r, of orig vio]
  show "video_iteration cfg skip orig st vio
          = ([mismatch_diag (shape f) (grid_width cfg) (grid_height cfg),
              Stdout (SkipSourceFrame (idx - 1))],
             st\<lparr>processed_frame_index := idx, cap := frames,
                last_frame_send_time := skip_time vio\<rparr>, Continue)"
    by (rule it)
  show "video_loop cfg skip orig st (vio # vrest)
          = (fst (video_iteration cfg skip orig st vio)
               @ fst (video_loop cfg skip orig
                       (st\<lparr>processed_frame_index := idx, cap := frames,
                           last_frame_send_time := skip_time vio\<rparr>) vrest),
             snd (video_loop cfg skip orig
                       (st\<lparr>processed_frame_index := idx, cap := frames,
                           last_frame_send_time := skip_time vio\<rparr>) vrest))"
    using video_loop_Continue[OF it, of vrest] by (simp add: it)
qed

theorem mismatch_frame_dropped_witness:
  "dims_mismatch (shape frame1x1) (grid_width cfg2x2) (grid_height cfg2x2)
   \<and> resize_calls (fst (prepare_pixel_data_standard_zigzag no_resize frame1x1
                          (grid_width cfg2x2) (grid_height cfg2x2)))
       = [CvResize 2 2]
   \<and> snd (prepare_pixel_data_standard_zigzag no_resize frame1x1
             (grid_width cfg2x2) (grid_height cfg2x2)) = Inr None
   \<and> serial_writes (fst (screen_iteration no_resize cfg2x2 0 frame1x1 env_fast)) = []
   \<and> snd (screen_iteration no_resize cfg2x2 0 frame1x1 env_fast) = (0, Continue)
   \<and> read_skipping (nat 1) (cap (vstate0 [frame1x1])) (processed_frame_index (vstate0 [frame1x1]))
       None = (Some frame1x1, [], 1)
   \<and> video_iteration cfg2x2 1 2 (vstate0 [frame1x1]) venv_fast
       = ([Stderr (ErrFrameMismatch 1 1 3 2 2), Stdout (SkipSourceFrame 0)],
          (vstate0 [frame1x1])\<lparr>processed_frame_index := 1, cap := [],
             last_frame_send_time := 10\<rparr>, Continue)"
proof -
  have g: "grid_width cfg2x2 = 2" "grid_height cfg2x2 = 2" by (simp_all add: cfg2x2_def)
  have m: "dims_mismatch (shape frame1x1) (grid_width cfg2x2) (grid_height cfg2x2)"
    by (simp add: frame1x1_def cfg2x2_def)
  have nr: "\<forall>f'. no_resize frame1x1 (grid_width cfg2x2) (grid_height cfg2x2) = Inr (Array3 f')
      \<longrightarrow> dims_mismatch (shape f') (grid_width cfg2x2) (grid_height cfg2x2)"
    by (simp add: no_resize_def)
  have r: "read_skipping (nat 1) (cap (vstate0 [frame1x1]))
             (processed_frame_index (vstate0 [frame1x1])) None = (Some frame1x1, [], 1)"
    by (simp add: vstate0_def)
  have d: "mismatch_diag (shape frame1x1) 2 2 = Stderr (ErrFrameMismatch 1 1 3 2 2)"
    by (simp add: frame1x1_def)
  have k: "skip_time venv_fast = 10" by (simp add: venv_fast_def)
  from mismatch_frame_dropped[OF m, of no_resize 0 env_fast "[]" 1 "vstate0 [frame1x1]" "[]" 1
      2 venv_fast "[]"] nr r
  show ?thesis using m r by (simp add: g d k)
qed

text \<open>
  C7 as stated fails for the video program: on a 1x1 frame and a 2x2 grid its serializer
  returns \<open>None\<close> without any call of the resampler, where the serializer of the screen
  program, given a resampler that delivers a 2x2 frame, calls it and serializes the result.
\<close>

theorem video_mismatch_no_resample:
  "dims_mismatch (shape frame1x1) 2 2
   \<and> prepare_pixel_data_standard_zigzag_video frame1x1 2 2
       = ([Stderr (ErrFrameMismatch 1 1 3 2 2)], Inr None)
   \<and> resize_calls (fst (prepare_pixel_data_standard_zigzag_video frame1x1 2 2)) = []
   \<and> prepare_pixel_data_standard_zigzag resize_to_2x2 frame1x1 2 2
       = ([Stderr (ErrFrameMismatch 1 1 3 2 2), CvResize 2 2, Stderr WarnResizedInside],
          Inr (Some [1, 2, 3, 4, 5, 6, 10, 11, 12, 7, 8, 9]))"
  by (simp add: prepare_pixel_data_standard_zigzag_video_def prepare_pixel_data_standard_zigzag_def
      frame1x1_def resize_to_2x2_def frame2x2_def zigzag_loop_def py_range_def py_range_down_def
      getitem_def upt_rec)

end
